theory Spec2Isabelle
  imports Complex_Main "HOL-Library.Char_ord" "HOL-Library.List_Lexorder"
    "HOL-Library.Product_Lexorder"
begin

section \<open>Timestamps\<close>

text \<open>
  Every variant stamps a dose with \<^verbatim>\<open>datetime.now()\<close>, a naive local date and time, and
  later reads it back through \<^verbatim>\<open>pd.to_datetime\<close>. A timestamp is modelled as the number of
  seconds since 1970-01-01 00:00:00 on that naive local calendar (a Thursday); fractions of a
  second play no role in any derived feature. The accessors below are the library's
  \<^verbatim>\<open>.dt.hour\<close>, \<^verbatim>\<open>.dt.dayofweek\<close> (Monday is 0) and \<^verbatim>\<open>.dt.day_name()\<close>.
\<close>

type_synonym timestamp = int

definition hour_of :: "timestamp \<Rightarrow> int" where
  "hour_of t = (t div 3600) mod 24"

definition dayofweek :: "timestamp \<Rightarrow> int" where
  "dayofweek t = (t div 86400 + 3) mod 7"

definition weekday_names :: "string list" where
  "weekday_names =
     [''Monday'', ''Tuesday'', ''Wednesday'', ''Thursday'', ''Friday'', ''Saturday'', ''Sunday'']"

definition day_name :: "timestamp \<Rightarrow> string" where
  "day_name t = weekday_names ! nat (dayofweek t)"

section \<open>Exceptions\<close>

text \<open>
  Python exceptions the modelled code can meet: \<^verbatim>\<open>sqlite3.IntegrityError\<close> from a violated
  table constraint, \<^verbatim>\<open>IndexError\<close> from \<^verbatim>\<open>.values[0]\<close> on an empty selection, and
  \<^verbatim>\<open>ValueError\<close>, which is what the classifier library raises.
\<close>

datatype error = IntegrityError | IndexError | ValueError

section \<open>The store of 12medi.py: users, meds, dose\_log\<close>

text \<open>
  Tables are lists of rows in rowid order, which is the order an unordered
  \<^verbatim>\<open>SELECT\<close> scans them in. An \<^verbatim>\<open>INTEGER PRIMARY KEY AUTOINCREMENT\<close> column takes one more
  than the largest id the table ever held; that counter is a field of the store.
  \<^verbatim>\<open>dose_log.taken\<close> is a plain \<^verbatim>\<open>INT\<close> column (1 taken, 0 missed) without any constraint.
\<close>

record users_row =
  u_username :: string
  u_email :: string
  u_pwd_hash :: string
  u_age :: int
  u_doctor_name :: string
  u_doctor_phone :: string

record meds_row =
  m_id :: int
  m_username :: string
  m_med_name :: string
  m_dose :: string
  m_time_of_day :: string

record dose_log_row =
  l_id :: int
  l_username :: string
  l_med_id :: int
  l_ts :: timestamp
  l_taken :: int

record db =
  users :: "users_row list"
  meds :: "meds_row list"
  meds_seq :: int
  dose_log :: "dose_log_row list"
  dose_log_seq :: int

definition init_db :: db where
  "init_db = \<lparr>users = [], meds = [], meds_seq = 0, dose_log = [], dose_log_seq = 0\<rparr>"

text \<open>
  \<^verbatim>\<open>hash_pwd\<close> is \<^verbatim>\<open>hashlib.sha256(password.encode()).hexdigest()\<close>. The digest is library
  code; \<open>sha256\<close> stands for it (encoding and hex rendering included) as a parameter.
  \<^verbatim>\<open>create_user\<close> inserts the row; \<^verbatim>\<open>username\<close> is the primary key of the table.
\<close>

definition hash_pwd :: "(string \<Rightarrow> string) \<Rightarrow> string \<Rightarrow> string" where
  "hash_pwd sha256 password = sha256 password"

definition create_user ::
    "(string \<Rightarrow> string) \<Rightarrow> db \<Rightarrow> string \<Rightarrow> string \<Rightarrow> string \<Rightarrow> int \<Rightarrow> string \<Rightarrow> string \<Rightarrow> error + db" where
  "create_user sha256 d username email password age doc_name doc_phone =
     (if username \<in> set (map u_username (users d)) then Inl IntegrityError
      else Inr (d\<lparr>users := users d @
                  [\<lparr>u_username = username, u_email = email,
                    u_pwd_hash = hash_pwd sha256 password, u_age = age,
                    u_doctor_name = doc_name, u_doctor_phone = doc_phone\<rparr>]\<rparr>))"

definition add_med :: "db \<Rightarrow> string \<Rightarrow> string \<Rightarrow> string \<Rightarrow> string \<Rightarrow> db" where
  "add_med d username med_name dose time_of_day =
     d\<lparr>meds := meds d @
          [\<lparr>m_id = meds_seq d + 1, m_username = username, m_med_name = med_name,
            m_dose = dose, m_time_of_day = time_of_day\<rparr>],
       meds_seq := meds_seq d + 1\<rparr>"


text \<open>
  \<^verbatim>\<open>log_dose(username, med_id, taken)\<close> inserts one row stamped with the clock reading
  \<open>now\<close>; it checks nothing and returns nothing.
\<close>

definition new_dose_log_row :: "timestamp \<Rightarrow> db \<Rightarrow> string \<Rightarrow> int \<Rightarrow> int \<Rightarrow> dose_log_row" where
  "new_dose_log_row now d username med_id taken =
     \<lparr>l_id = dose_log_seq d + 1, l_username = username, l_med_id = med_id,
      l_ts = now, l_taken = taken\<rparr>"

definition log_dose :: "timestamp \<Rightarrow> db \<Rightarrow> string \<Rightarrow> int \<Rightarrow> int \<Rightarrow> db" where
  "log_dose now d username med_id taken =
     d\<lparr>dose_log := dose_log d @ [new_dose_log_row now d username med_id taken],
       dose_log_seq := dose_log_seq d + 1\<rparr>"

definition get_logs :: "db \<Rightarrow> string \<Rightarrow> dose_log_row list" where
  "get_logs d username = filter (\<lambda>r. l_username r = username) (dose_log d)"


text \<open>
  What the id counter guarantees in every store built from \<open>init_db\<close>: ids grow along the
  table and never pass the counter.
\<close>

definition ids_ok :: "db \<Rightarrow> bool" where
  "ids_ok d =
     (sorted_wrt (<) (map l_id (dose_log d)) \<and>
      list_all (\<lambda>r. l_id r \<le> dose_log_seq d) (dose_log d))"

section \<open>The classifier pipeline\<close>

text \<open>
  The numerical fit of \<^verbatim>\<open>LogisticRegression\<close> is library code outside the repository. It is
  a parameter of every definition that trains: a function from the encoded feature matrix and
  the label column to either the library's exception or the fitted coefficients. A function
  is deterministic, which is the fixed-seed reading of the fit.
\<close>

record logreg =
  coef :: "real list"
  intercept :: real

type_synonym 'y lr_fit = "real list list \<Rightarrow> 'y list \<Rightarrow> error + logreg"

text \<open>
  \<^verbatim>\<open>OneHotEncoder\<close>: the categories are the sorted distinct values of the fitted column; a
  value is encoded as one 0/1 column per category. \<^verbatim>\<open>handle_unknown="ignore"\<close> encodes a
  value outside the categories as all zeros; the constructor's default,
  \<^verbatim>\<open>handle_unknown="error"\<close>, raises instead.
\<close>

datatype handle_unknown = Error | Ignore

record 'c pipeline =
  ohe_policy :: handle_unknown
  ohe_categories :: "'c list"
  clf :: logreg

definition ohe_fit :: "'c::linorder list \<Rightarrow> 'c list" where
  "ohe_fit col = sort (remdups col)"

definition onehot :: "'c list \<Rightarrow> 'c \<Rightarrow> real list" where
  "onehot cats v = map (\<lambda>c. if c = v then 1 else 0) cats"

definition ohe_transform :: "handle_unknown \<Rightarrow> 'c list \<Rightarrow> 'c \<Rightarrow> error + real list" where
  "ohe_transform policy cats v =
     (if v \<in> set cats then Inr (onehot cats v)
      else (case policy of Ignore \<Rightarrow> Inr (onehot cats v) | Error \<Rightarrow> Inl ValueError))"

definition expit :: "real \<Rightarrow> real" where
  "expit z = 1 / (1 + exp (- z))"

definition decision_function :: "logreg \<Rightarrow> real list \<Rightarrow> real" where
  "decision_function m x = sum_list (map2 (*) (coef m) x) + intercept m"

text \<open>
  \<^verbatim>\<open>pipe.predict_proba\<close> on one row: the \<^verbatim>\<open>ColumnTransformer\<close> puts the one-hot columns
  first and passes the remaining columns through behind them; the classifier refuses a row
  whose width is not that of its coefficients; the result is the pair of probabilities of the
  smaller class (0, False) and of the larger class (1, True).
\<close>

definition predict_proba :: "'c pipeline \<Rightarrow> 'c \<Rightarrow> real list \<Rightarrow> error + real \<times> real" where
  "predict_proba p v rest =
     (case ohe_transform (ohe_policy p) (ohe_categories p) v of
        Inl e \<Rightarrow> Inl e
      | Inr hot \<Rightarrow>
          (let x = hot @ rest in
           if length x \<noteq> length (coef (clf p)) then Inl ValueError
           else (let q = expit (decision_function (clf p) x) in Inr (1 - q, q))))"

section \<open>Feature building and training in 12medi.py\<close>










section \<open>The store and the dashboard of 15.py\<close>

text \<open>
  \<^verbatim>\<open>users.username\<close> is \<^verbatim>\<open>UNIQUE\<close>; \<^verbatim>\<open>doses.status\<close> carries
  \<^verbatim>\<open>CHECK(status IN ('Taken','Missed'))\<close>; no foreign key is declared.
\<close>

record users15_row =
  a_id :: int
  a_username :: string
  a_password :: string
  a_age :: int
  a_gender :: string

record meds15_row =
  md_id :: int
  md_user_id :: int
  md_med_name :: string
  md_dosage :: string
  md_schedule :: string

record doses_row =
  ds_id :: int
  ds_user_id :: int
  ds_med_id :: int
  ds_timestamp :: timestamp
  ds_status :: string

record db15 =
  users_t :: "users15_row list"
  users_seq :: int
  meds_t :: "meds15_row list"
  meds_t_seq :: int
  doses_t :: "doses_row list"
  doses_seq :: int

definition init_db15 :: db15 where
  "init_db15 =
     \<lparr>users_t = [], users_seq = 0, meds_t = [], meds_t_seq = 0, doses_t = [], doses_seq = 0\<rparr>"

text \<open>
  \<^verbatim>\<open>hash_pw\<close> is \<^verbatim>\<open>hashlib.sha256(pw.encode()).hexdigest()\<close>. The digest is library code;
  \<open>sha256\<close> stands for it (encoding and hex rendering included) as a parameter.
\<close>

definition hash_pw :: "(string \<Rightarrow> string) \<Rightarrow> string \<Rightarrow> string" where
  "hash_pw sha256 pw = sha256 pw"

datatype reg_outcome = Created | Required | UsernameTaken

definition page_register ::
    "(string \<Rightarrow> string) \<Rightarrow> db15 \<Rightarrow> string \<Rightarrow> string \<Rightarrow> int \<Rightarrow> string \<Rightarrow> reg_outcome \<times> db15" where
  "page_register sha256 d u p age gender =
     (if u = [] \<or> p = [] then (Required, d)
      else if u \<in> set (map a_username (users_t d)) then (UsernameTaken, d)
      else (Created,
            d\<lparr>users_t := users_t d @
                 [\<lparr>a_id = users_seq d + 1, a_username = u, a_password = hash_pw sha256 p,
                   a_age = age, a_gender = gender\<rparr>],
              users_seq := users_seq d + 1\<rparr>))"

definition stored_password :: "db15 \<Rightarrow> string \<Rightarrow> string option" where
  "stored_password d u = map_of (map (\<lambda>r. (a_username r, a_password r)) (users_t d)) u"

definition page_dashboard_save_med :: "db15 \<Rightarrow> int \<Rightarrow> string \<Rightarrow> string \<Rightarrow> string \<Rightarrow> db15" where
  "page_dashboard_save_med d uid m dosage s =
     (if m = [] then d
      else d\<lparr>meds_t := meds_t d @
                [\<lparr>md_id = meds_t_seq d + 1, md_user_id = uid, md_med_name = m,
                  md_dosage = dosage, md_schedule = s\<rparr>],
             meds_t_seq := meds_t_seq d + 1\<rparr>)"

text \<open>The \<^verbatim>\<open>INSERT INTO doses\<close> statement with the table's check constraint.\<close>

definition new_doses_row :: "timestamp \<Rightarrow> db15 \<Rightarrow> int \<Rightarrow> int \<Rightarrow> string \<Rightarrow> doses_row" where
  "new_doses_row now d uid mid status =
     \<lparr>ds_id = doses_seq d + 1, ds_user_id = uid, ds_med_id = mid,
      ds_timestamp = now, ds_status = status\<rparr>"

definition insert_dose :: "timestamp \<Rightarrow> db15 \<Rightarrow> int \<Rightarrow> int \<Rightarrow> string \<Rightarrow> error + db15" where
  "insert_dose now d uid mid status =
     (if status = ''Taken'' \<or> status = ''Missed''
      then Inr (d\<lparr>doses_t := doses_t d @ [new_doses_row now d uid mid status],
                   doses_seq := doses_seq d + 1\<rparr>)
      else Inl IntegrityError)"

text \<open>
  The Log Dose tab: the user's medicines are read, \<open>med\<close> is the name picked in the select
  box, \<open>status\<close> the radio button, and Save resolves the name with
  \<^verbatim>\<open>meds.loc[meds.med_name==med,"id"].values[0]\<close>.
\<close>

definition user_meds15 :: "db15 \<Rightarrow> int \<Rightarrow> meds15_row list" where
  "user_meds15 d uid = filter (\<lambda>m. md_user_id m = uid) (meds_t d)"

definition page_dashboard_log_dose :: "timestamp \<Rightarrow> db15 \<Rightarrow> int \<Rightarrow> string \<Rightarrow> string \<Rightarrow> error + db15" where
  "page_dashboard_log_dose now d uid med status =
     (if user_meds15 d uid = [] then Inr d
      else (case map md_id (filter (\<lambda>m. md_med_name m = med) (user_meds15 d uid)) of
              [] \<Rightarrow> Inl IndexError
            | mid # rest \<Rightarrow> insert_dose now d uid mid status))"

text \<open>
  The Insights tab: the user's doses, the heat-map counts
  \<^verbatim>\<open>df.groupby(["day","hour","status"]).size()\<close> (one row per distinct key, keys sorted), the
  training table of hour and day name against \<^verbatim>\<open>status == "Missed"\<close>, the fitted pipeline
  with a default \<^verbatim>\<open>OneHotEncoder()\<close> on the day, and the day names the select box offers.
\<close>

definition select_doses :: "db15 \<Rightarrow> int \<Rightarrow> doses_row list" where
  "select_doses d uid = filter (\<lambda>r. ds_user_id r = uid) (doses_t d)"

definition heat :: "doses_row list \<Rightarrow> ((string \<times> int \<times> string) \<times> nat) list" where
  "heat df =
     (let keys = map (\<lambda>r. (day_name (ds_timestamp r), hour_of (ds_timestamp r), ds_status r)) df
      in map (\<lambda>k. (k, count_list keys k)) (sort (remdups keys)))"

definition features15 :: "doses_row list \<Rightarrow> (int \<times> string) list" where
  "features15 df = map (\<lambda>r. (hour_of (ds_timestamp r), day_name (ds_timestamp r))) df"

definition labels15 :: "doses_row list \<Rightarrow> bool list" where
  "labels15 df = map (\<lambda>r. ds_status r = ''Missed'') df"

definition encode_row15 :: "string list \<Rightarrow> int \<times> string \<Rightarrow> real list" where
  "encode_row15 cats row = (case row of (h, day) \<Rightarrow> onehot cats day @ [real_of_int h])"

definition fit_pipe15 :: "bool lr_fit \<Rightarrow> doses_row list \<Rightarrow> error + string pipeline" where
  "fit_pipe15 fit df =
     (let X = features15 df;
          cats = ohe_fit (map snd X)
      in case fit (map (encode_row15 cats) X) (labels15 df) of
           Inl e \<Rightarrow> Inl e
         | Inr m \<Rightarrow> Inr \<lparr>ohe_policy = Error, ohe_categories = cats, clf = m\<rparr>)"


definition day_options :: "doses_row list \<Rightarrow> string list" where
  "day_options df = sort (remdups (map (\<lambda>r. day_name (ds_timestamp r)) df))"

datatype insights =
    NoLogs
  | Insights "((string \<times> int \<times> string) \<times> nat) list" "error + string pipeline" "string list"

definition get_insights :: "bool lr_fit \<Rightarrow> db15 \<Rightarrow> int \<Rightarrow> insights" where
  "get_insights fit d uid =
     (let df = select_doses d uid in
      if df = [] then NoLogs
      else Insights (heat df) (fit_pipe15 fit df) (day_options df))"

text \<open>
  Rendering the tab only reads the store. As a step on the store it returns the store it was
  given together with what it shows.
\<close>

definition page_dashboard_insights :: "bool lr_fit \<Rightarrow> db15 \<Rightarrow> int \<Rightarrow> db15 \<times> insights" where
  "page_dashboard_insights fit d uid = (d, get_insights fit d uid)"

text \<open>
  \<^verbatim>\<open>pipe.predict_proba(pd.DataFrame([[h,d]],columns=["hour","day"]))[0][1]\<close>: column 1, the
  probability of \<^verbatim>\<open>miss == True\<close>.
\<close>

definition risk_of_missing :: "string pipeline \<Rightarrow> int \<Rightarrow> string \<Rightarrow> error + real" where
  "risk_of_missing p h day =
     (case predict_proba p day [real_of_int h] of
        Inl e \<Rightarrow> Inl e
      | Inr pr \<Rightarrow> Inr (snd pr))"

definition query_risk :: "insights \<Rightarrow> int \<Rightarrow> string \<Rightarrow> (error + real) option" where
  "query_risk ins h day =
     (case ins of
        NoLogs \<Rightarrow> None
      | Insights hm model days \<Rightarrow>
          (case model of Inl e \<Rightarrow> Some (Inl e) | Inr p \<Rightarrow> Some (risk_of_missing p h day)))"

section \<open>The log and the risk page of 1medipredict.py\<close>






section \<open>Store invariants of 15.py\<close>

text \<open>
  What the id counter of \<^verbatim>\<open>meds\<close> guarantees in every store built from \<open>init_db15\<close>:
  the medicine ids grow along the table and never pass the counter.
\<close>

definition ids_ok15 :: "db15 \<Rightarrow> bool" where
  "ids_ok15 d =
     (sorted_wrt (<) (map md_id (meds_t d)) \<and>
      list_all (\<lambda>m. md_id m \<le> meds_t_seq d) (meds_t d))"

section \<open>Facts about the 12medi.py store\<close>

lemma ids_ok_init_db: "ids_ok init_db"
  by (simp add: ids_ok_def init_db_def)

lemma ids_ok_log_dose:
  assumes "ids_ok d"
  shows "ids_ok (log_dose now d u m t)"
proof -
  from assms have bound: "\<And>r. r \<in> set (dose_log d) \<Longrightarrow> l_id r \<le> dose_log_seq d"
    by (simp add: ids_ok_def list_all_iff)
  then have below: "\<And>r. r \<in> set (dose_log d) \<Longrightarrow> l_id r < dose_log_seq d + 1"
    by fastforce
  from assms have "sorted_wrt (<) (map l_id (dose_log d))"
    by (simp add: ids_ok_def)
  with below have "sorted_wrt (<) (map l_id (dose_log (log_dose now d u m t)))"
    by (simp add: log_dose_def new_dose_log_row_def sorted_wrt_append)
  moreover from bound have
    "list_all (\<lambda>r. l_id r \<le> dose_log_seq (log_dose now d u m t)) (dose_log (log_dose now d u m t))"
    by (fastforce simp: log_dose_def new_dose_log_row_def list_all_iff)
  ultimately show ?thesis
    by (simp add: ids_ok_def)
qed

lemma ids_ok_add_med: "ids_ok d \<Longrightarrow> ids_ok (add_med d u n x s)"
  by (simp add: ids_ok_def add_med_def)

lemma get_logs_log_dose:
  "get_logs (log_dose now d u m t) v =
     get_logs d v @ (if u = v then [new_dose_log_row now d u m t] else [])"
  by (simp add: get_logs_def log_dose_def new_dose_log_row_def)

lemma new_row_is_fresh:
  assumes "ids_ok d"
  shows "filter (\<lambda>r. l_id r = dose_log_seq d + 1) (get_logs d v) = []"
proof -
  from assms have "\<And>r. r \<in> set (dose_log d) \<Longrightarrow> l_id r \<noteq> dose_log_seq d + 1"
    by (fastforce simp: ids_ok_def list_all_iff)
  then show ?thesis
    by (simp add: get_logs_def filter_empty_conv)
qed

section \<open>Appending a dose and reading the log back\<close>

text \<open>
  Claim C5. In a store whose ids respect the counter, \<open>log_dose\<close> followed by \<open>get_logs\<close>
  for the same user returns the earlier rows of that user followed by the new row; the new
  row occurs exactly once, no other returned row carries its id, and it holds the status,
  the medicine id and the user name that were passed.
\<close>

theorem log_dose_then_get_logs:
  assumes "ids_ok d"
  shows "get_logs (log_dose now d u m t) u = get_logs d u @ [new_dose_log_row now d u m t]
       \<and> count_list (get_logs (log_dose now d u m t) u) (new_dose_log_row now d u m t) = 1
       \<and> length (filter (\<lambda>r. l_id r = l_id (new_dose_log_row now d u m t))
                  (get_logs (log_dose now d u m t) u)) = 1
       \<and> l_taken (new_dose_log_row now d u m t) = t
       \<and> l_med_id (new_dose_log_row now d u m t) = m
       \<and> l_username (new_dose_log_row now d u m t) = u"
proof -
  let ?new = "new_dose_log_row now d u m t"
  have app: "get_logs (log_dose now d u m t) u = get_logs d u @ [?new]"
    by (simp add: get_logs_log_dose)
  have id_new: "l_id ?new = dose_log_seq d + 1"
    by (simp add: new_dose_log_row_def)
  from assms have fresh: "filter (\<lambda>r. l_id r = l_id ?new) (get_logs d u) = []"
    by (simp add: id_new new_row_is_fresh)
  then have "?new \<notin> set (get_logs d u)"
    by (auto simp: filter_empty_conv)
  then have cnt: "count_list (get_logs d u) ?new = 0"
    by (simp add: count_list_0_iff)
  have one: "count_list (get_logs (log_dose now d u m t) u) ?new = 1"
    by (simp add: app cnt)
  have len: "length (filter (\<lambda>r. l_id r = l_id ?new) (get_logs (log_dose now d u m t) u)) = 1"
    by (simp add: app fresh)
  show ?thesis
    using app one len by (simp add: new_dose_log_row_def)
qed

theorem log_dose_then_get_logs_witness:
  "ids_ok (log_dose 100 init_db ''demo'' 1 1)
   \<and> get_logs (log_dose 200 (log_dose 100 init_db ''demo'' 1 1) ''demo'' 2 0) ''demo'' =
       [\<lparr>l_id = 1, l_username = ''demo'', l_med_id = 1, l_ts = 100, l_taken = 1\<rparr>,
        \<lparr>l_id = 2, l_username = ''demo'', l_med_id = 2, l_ts = 200, l_taken = 0\<rparr>]
   \<and> count_list (get_logs (log_dose 200 (log_dose 100 init_db ''demo'' 1 1) ''demo'' 2 0) ''demo'')
        \<lparr>l_id = 2, l_username = ''demo'', l_med_id = 2, l_ts = 200, l_taken = 0\<rparr> = 1"
proof -
  have ok: "ids_ok (log_dose 100 init_db ''demo'' 1 1)"
    by (rule ids_ok_log_dose [OF ids_ok_init_db])
  have row: "new_dose_log_row 200 (log_dose 100 init_db ''demo'' 1 1) ''demo'' 2 0 =
      \<lparr>l_id = 2, l_username = ''demo'', l_med_id = 2, l_ts = 200, l_taken = 0\<rparr>"
    by (simp add: new_dose_log_row_def log_dose_def init_db_def)
  have old: "get_logs (log_dose 100 init_db ''demo'' 1 1) ''demo'' =
      [\<lparr>l_id = 1, l_username = ''demo'', l_med_id = 1, l_ts = 100, l_taken = 1\<rparr>]"
    by (simp add: get_logs_def new_dose_log_row_def log_dose_def init_db_def)
  from log_dose_then_get_logs [OF ok, of 200 "''demo''" 2 0] ok show ?thesis
    unfolding row old by simp
qed

section \<open>Reading a user's log\<close>

lemma sorted_ts_log_dose:
  assumes "sorted (map l_ts (dose_log d))" and "list_all (\<lambda>r. l_ts r \<le> now) (dose_log d)"
  shows "sorted (map l_ts (dose_log (log_dose now d u m t)))"
  using assms
  by (simp add: log_dose_def new_dose_log_row_def sorted_append list_all_iff)

text \<open>
  Claim C4, as the code has it. \<open>get_logs\<close> has no \<^verbatim>\<open>ORDER BY\<close>: it returns the rows of the
  user, all of them and each as often as it is stored, in the order they were inserted (by
  growing id). That is the order of their timestamps whenever the timestamps of the table
  grow along it, which \<open>log_dose\<close> keeps up as long as the clock it reads is not behind the
  stored rows (\<open>sorted_ts_log_dose\<close>). A user without rows gets the empty list.
\<close>

theorem get_logs_in_insertion_order:
  assumes "ids_ok d"
  shows "set (get_logs d u) = {r. r \<in> set (dose_log d) \<and> l_username r = u}
       \<and> length (get_logs d u) = count_list (map l_username (dose_log d)) u
       \<and> sorted_wrt (<) (map l_id (get_logs d u))
       \<and> (sorted (map l_ts (dose_log d)) \<longrightarrow> sorted (map l_ts (get_logs d u)))
       \<and> (u \<notin> set (map l_username (dose_log d)) \<longrightarrow> get_logs d u = [])"
proof -
  have members: "set (get_logs d u) = {r. r \<in> set (dose_log d) \<and> l_username r = u}"
    by (auto simp: get_logs_def)
  have "length (filter (\<lambda>r. l_username r = u) xs) = count_list (map l_username xs) u" for xs
    by (induction xs) auto
  then have len: "length (get_logs d u) = count_list (map l_username (dose_log d)) u"
    by (simp add: get_logs_def)
  from assms have "sorted_wrt (\<lambda>a b. l_id a < l_id b) (dose_log d)"
    by (simp add: ids_ok_def sorted_wrt_map)
  then have "sorted_wrt (\<lambda>a b. l_id a < l_id b) (get_logs d u)"
    unfolding get_logs_def by (rule sorted_wrt_filter)
  then have by_id: "sorted_wrt (<) (map l_id (get_logs d u))"
    by (simp add: sorted_wrt_map)
  have by_ts: "sorted (map l_ts (get_logs d u))" if "sorted (map l_ts (dose_log d))"
    using that unfolding get_logs_def by (rule sorted_filter)
  have none: "get_logs d u = []" if "u \<notin> set (map l_username (dose_log d))"
    using that by (auto simp: get_logs_def filter_empty_conv)
  from members len by_id by_ts none show ?thesis
    by blast
qed

text \<open>The theorem at a store of two doses logged at clock readings 100 and 200.\<close>

theorem get_logs_in_insertion_order_witness:
  "ids_ok (log_dose 200 (log_dose 100 init_db ''demo'' 1 1) ''demo'' 2 0)
   \<and> sorted (map l_ts (dose_log (log_dose 200 (log_dose 100 init_db ''demo'' 1 1) ''demo'' 2 0)))
   \<and> sorted (map l_ts (get_logs (log_dose 200 (log_dose 100 init_db ''demo'' 1 1) ''demo'' 2 0) ''demo''))
   \<and> length (get_logs (log_dose 200 (log_dose 100 init_db ''demo'' 1 1) ''demo'' 2 0) ''demo'') = 2
   \<and> ''nobody'' \<notin> set (map l_username (dose_log (log_dose 200 (log_dose 100 init_db ''demo'' 1 1) ''demo'' 2 0)))
   \<and> get_logs (log_dose 200 (log_dose 100 init_db ''demo'' 1 1) ''demo'' 2 0) ''nobody'' = []"
proof -
  let ?d = "log_dose 200 (log_dose 100 init_db ''demo'' 1 1) ''demo'' 2 0"
  have ok: "ids_ok ?d"
    by (intro ids_ok_log_dose ids_ok_init_db)
  have ts: "sorted (map l_ts (dose_log ?d))"
    by (simp add: log_dose_def new_dose_log_row_def init_db_def)
  have names: "map l_username (dose_log ?d) = [''demo'', ''demo'']"
    by (simp add: log_dose_def new_dose_log_row_def init_db_def)
  from get_logs_in_insertion_order [OF ok, of "''demo''"] ts names
  have a: "sorted (map l_ts (get_logs ?d ''demo''))" and b: "length (get_logs ?d ''demo'') = 2"
    by simp_all
  have c: "''nobody'' \<notin> set (map l_username (dose_log ?d))"
    by (simp add: names)
  with get_logs_in_insertion_order [OF ok, of "''nobody''"] have "get_logs ?d ''nobody'' = []"
    by blast
  with ok ts a b c show ?thesis
    by blast
qed

text \<open>
  The claim as stated fails when the wall clock read by \<^verbatim>\<open>datetime.now()\<close> steps back
  between two calls (here from 02:00 to 01:00, as at the end of daylight saving time): the
  rows come back in insertion order, which is then not the order of their timestamps.
\<close>

theorem get_logs_time_order_counterexample:
  "\<not> sorted (map l_ts (get_logs (log_dose 3600 (log_dose 7200 init_db ''demo'' 1 1) ''demo'' 1 0) ''demo''))"
  by (simp add: get_logs_def log_dose_def new_dose_log_row_def init_db_def)

section \<open>The Log Dose tab of 15.py\<close>

lemma ids_ok15_init: "ids_ok15 init_db15"
  by (simp add: ids_ok15_def init_db15_def)

lemma ids_ok15_save_med:
  assumes "ids_ok15 d"
  shows "ids_ok15 (page_dashboard_save_med d uid m dosage s)"
proof (cases "m = []")
  case True
  with assms show ?thesis by (simp add: page_dashboard_save_med_def)
next
  case False
  from assms have bound: "\<And>r. r \<in> set (meds_t d) \<Longrightarrow> md_id r \<le> meds_t_seq d"
    by (simp add: ids_ok15_def list_all_iff)
  then have below: "\<And>r. r \<in> set (meds_t d) \<Longrightarrow> md_id r < meds_t_seq d + 1"
    by fastforce
  from assms have "sorted_wrt (<) (map md_id (meds_t d))"
    by (simp add: ids_ok15_def)
  with below False have "sorted_wrt (<) (map md_id (meds_t (page_dashboard_save_med d uid m dosage s)))"
    by (simp add: page_dashboard_save_med_def sorted_wrt_append)
  moreover from bound False have
    "list_all (\<lambda>r. md_id r \<le> meds_t_seq (page_dashboard_save_med d uid m dosage s))
       (meds_t (page_dashboard_save_med d uid m dosage s))"
    by (fastforce simp: page_dashboard_save_med_def list_all_iff)
  ultimately show ?thesis
    by (simp add: ids_ok15_def)
qed

lemma strictly_sorted_head_is_Min:
  fixes x :: int
  assumes "sorted_wrt (<) (x # xs)"
  shows "Min (set (x # xs)) = x"
proof (rule Min_eqI)
  show "finite (set (x # xs))" by simp
  show "x \<in> set (x # xs)" by simp
  fix y assume "y \<in> set (x # xs)"
  with assms show "x \<le> y" by auto
qed

text \<open>
  Claim C10. When the name picked in the select box is one of the user's medicine names and
  the status is one of the radio button's, Save stores one dose whose medicine id is the
  smallest id among the user's medicines of that name, however many share it: the first
  matching row of the table is taken and ids grow along the table.
\<close>

theorem log_dose_resolves_smallest_id:
  assumes "ids_ok15 d"
    and "med \<in> set (map md_med_name (user_meds15 d uid))"
    and "status = ''Taken'' \<or> status = ''Missed''"
  shows "page_dashboard_log_dose now d uid med status =
           Inr (d\<lparr>doses_t := doses_t d @
                    [new_doses_row now d uid
                       (Min (set (map md_id (filter (\<lambda>m. md_med_name m = med) (user_meds15 d uid)))))
                       status],
                  doses_seq := doses_seq d + 1\<rparr>)"
proof -
  let ?ids = "map md_id (filter (\<lambda>m. md_med_name m = med) (user_meds15 d uid))"
  from assms(2) have nonempty: "user_meds15 d uid \<noteq> []"
    by auto
  from assms(2) have "?ids \<noteq> []"
    by (auto simp: filter_empty_conv)
  then obtain mid rest where ids: "?ids = mid # rest"
    by (cases ?ids) auto
  from assms(1) have "sorted_wrt (\<lambda>a b. md_id a < md_id b) (meds_t d)"
    by (simp add: ids_ok15_def sorted_wrt_map)
  then have "sorted_wrt (\<lambda>a b. md_id a < md_id b) (filter (\<lambda>m. md_med_name m = med) (user_meds15 d uid))"
    unfolding user_meds15_def by (intro sorted_wrt_filter)
  then have "sorted_wrt (<) ?ids"
    by (simp add: sorted_wrt_map)
  with ids have "Min (set ?ids) = mid"
    by (simp only: strictly_sorted_head_is_Min)
  moreover from nonempty ids assms(3) have
    "page_dashboard_log_dose now d uid med status =
       Inr (d\<lparr>doses_t := doses_t d @ [new_doses_row now d uid mid status],
              doses_seq := doses_seq d + 1\<rparr>)"
    by (simp add: page_dashboard_log_dose_def insert_dose_def)
  ultimately show ?thesis
    by simp
qed

text \<open>
  The theorem at a store where user 1 holds two medicines named Aspirin, ids 1 and 3, and
  user 2 holds the one with id 2: the dose goes to id 1.
\<close>

theorem log_dose_resolves_smallest_id_witness:
  "ids_ok15 (page_dashboard_save_med
         (page_dashboard_save_med
            (page_dashboard_save_med init_db15 1 ''Aspirin'' ''100 mg'' ''Morning'')
            2 ''Aspirin'' ''75 mg'' ''Noon'')
         1 ''Aspirin'' ''300 mg'' ''Night'')
   \<and> map md_id (filter (\<lambda>m. md_med_name m = ''Aspirin'') (user_meds15 (page_dashboard_save_med
         (page_dashboard_save_med
            (page_dashboard_save_med init_db15 1 ''Aspirin'' ''100 mg'' ''Morning'')
            2 ''Aspirin'' ''75 mg'' ''Noon'')
         1 ''Aspirin'' ''300 mg'' ''Night'') 1)) = [1, 3]
   \<and> (case page_dashboard_log_dose 500 (page_dashboard_save_med
         (page_dashboard_save_med
            (page_dashboard_save_med init_db15 1 ''Aspirin'' ''100 mg'' ''Morning'')
            2 ''Aspirin'' ''75 mg'' ''Noon'')
         1 ''Aspirin'' ''300 mg'' ''Night'') 1 ''Aspirin'' ''Missed'' of
         Inl e \<Rightarrow> False
       | Inr d' \<Rightarrow> doses_t d' =
           [\<lparr>ds_id = 1, ds_user_id = 1, ds_med_id = 1, ds_timestamp = 500, ds_status = ''Missed''\<rparr>])"
proof -
  let ?d = "page_dashboard_save_med
         (page_dashboard_save_med
            (page_dashboard_save_med init_db15 1 ''Aspirin'' ''100 mg'' ''Morning'')
            2 ''Aspirin'' ''75 mg'' ''Noon'')
         1 ''Aspirin'' ''300 mg'' ''Night''"
  have ok: "ids_ok15 ?d"
    by (intro ids_ok15_save_med ids_ok15_init)
  have ids: "map md_id (filter (\<lambda>m. md_med_name m = ''Aspirin'') (user_meds15 ?d 1)) = [1, 3]"
    by (simp add: user_meds15_def page_dashboard_save_med_def init_db15_def)
  have offered: "''Aspirin'' \<in> set (map md_med_name (user_meds15 ?d 1))"
    by (simp add: user_meds15_def page_dashboard_save_med_def init_db15_def)
  have seq: "doses_seq ?d = 0" and empty: "doses_t ?d = []"
    by (simp_all add: page_dashboard_save_med_def init_db15_def)
  from log_dose_resolves_smallest_id [OF ok offered, of "''Missed''" 500]
  have "page_dashboard_log_dose 500 ?d 1 ''Aspirin'' ''Missed'' =
      Inr (?d\<lparr>doses_t := doses_t ?d @ [new_doses_row 500 ?d 1 (Min (set [1, 3])) ''Missed''],
              doses_seq := doses_seq ?d + 1\<rparr>)"
    unfolding ids by simp
  then have "case page_dashboard_log_dose 500 ?d 1 ''Aspirin'' ''Missed'' of
         Inl e \<Rightarrow> False
       | Inr d' \<Rightarrow> doses_t d' =
           [\<lparr>ds_id = 1, ds_user_id = 1, ds_med_id = 1, ds_timestamp = 500, ds_status = ''Missed''\<rparr>]"
    by (simp add: new_doses_row_def seq empty)
  with ok ids show ?thesis
    by blast
qed

section \<open>What is checked when a dose is stored\<close>




section \<open>The feature tables\<close>









section \<open>Asking a fitted pipeline for a risk\<close>

















section \<open>Training on what the log holds\<close>





section \<open>Whose doses an insight depends on\<close>








section \<open>The stored credential\<close>

lemma page_register_created:
  assumes "u \<noteq> []" and "p \<noteq> []" and "u \<notin> set (map a_username (users_t d))"
  shows "page_register sha256 d u p age gender =
           (Created, d\<lparr>users_t := users_t d @
                 [\<lparr>a_id = users_seq d + 1, a_username = u, a_password = sha256 p,
                   a_age = age, a_gender = gender\<rparr>],
              users_seq := users_seq d + 1\<rparr>)"
  using assms by (simp add: page_register_def hash_pw_def)

text \<open>
  Claim C8, as the code has it. Registration in 15.py stores the SHA-256 digest of the
  password and nothing else of it; no salt enters. When two different, new users register
  with the same password, both rows hold the same credential, the digest of that password.
  \<open>create_user\<close> of 12medi.py stores the same unsalted digest.
\<close>

theorem same_password_same_credential:
  assumes "u1 \<noteq> u2" and "u1 \<noteq> []" and "u2 \<noteq> []" and "p \<noteq> []"
    and "u1 \<notin> set (map a_username (users_t d))"
    and "u2 \<notin> set (map a_username (users_t d))"
  shows "stored_password
           (snd (page_register sha256 (snd (page_register sha256 d u1 p age1 g1)) u2 p age2 g2)) u1
           = Some (sha256 p)
       \<and> stored_password
           (snd (page_register sha256 (snd (page_register sha256 d u1 p age1 g1)) u2 p age2 g2)) u2
           = Some (sha256 p)
       \<and> (create_user sha256 e u email p age doc_name doc_phone = Inr e' \<longrightarrow>
            map u_pwd_hash (users e') = map u_pwd_hash (users e) @ [sha256 p])"
proof -
  let ?r1 = "\<lparr>a_id = users_seq d + 1, a_username = u1, a_password = sha256 p,
                   a_age = age1, a_gender = g1\<rparr>"
  let ?d1 = "d\<lparr>users_t := users_t d @ [?r1], users_seq := users_seq d + 1\<rparr>"
  let ?r2 = "\<lparr>a_id = users_seq ?d1 + 1, a_username = u2, a_password = sha256 p,
                   a_age = age2, a_gender = g2\<rparr>"
  let ?d2 = "?d1\<lparr>users_t := users_t ?d1 @ [?r2], users_seq := users_seq ?d1 + 1\<rparr>"
  from assms have first: "snd (page_register sha256 d u1 p age1 g1) = ?d1"
    by (simp add: page_register_created)
  from assms have fresh: "u2 \<notin> set (map a_username (users_t ?d1))"
    by simp
  have second: "snd (page_register sha256 ?d1 u2 p age2 g2) = ?d2"
    by (subst page_register_created [OF assms(3) assms(4) fresh]) simp
  from assms(5) have none1: "map_of (map (\<lambda>r. (a_username r, a_password r)) (users_t d)) u1 = None"
    by (simp add: map_of_eq_None_iff image_image)
  from assms(6) have none2: "map_of (map (\<lambda>r. (a_username r, a_password r)) (users_t d)) u2 = None"
    by (simp add: map_of_eq_None_iff image_image)
  from none1 assms(1) have a: "stored_password ?d2 u1 = Some (sha256 p)"
    by (simp add: stored_password_def map_add_def)
  from none2 assms(1) have b: "stored_password ?d2 u2 = Some (sha256 p)"
    by (simp add: stored_password_def map_add_def)
  have c: "map u_pwd_hash (users e') = map u_pwd_hash (users e) @ [sha256 p]"
    if "create_user sha256 e u email p age doc_name doc_phone = Inr e'"
    using that by (auto simp: create_user_def hash_pwd_def split: if_splits)
  from a b c show ?thesis
    unfolding first second by blast
qed

text \<open>
  The theorem at the empty store, alice and bob both registering with the password demo,
  whatever the digest function is.
\<close>

theorem same_password_same_credential_witness:
  "\<forall>sha256. ''alice'' \<noteq> ''bob''
     \<and> stored_password
          (snd (page_register sha256 (snd (page_register sha256 init_db15 ''alice'' ''demo'' 30 ''Female''))
             ''bob'' ''demo'' 40 ''Male'')) ''alice'' = Some (sha256 ''demo'')
     \<and> stored_password
          (snd (page_register sha256 (snd (page_register sha256 init_db15 ''alice'' ''demo'' 30 ''Female''))
             ''bob'' ''demo'' 40 ''Male'')) ''bob'' = Some (sha256 ''demo'')"
proof
  fix sha256 :: "string \<Rightarrow> string"
  have names: "''alice'' \<noteq> ''bob''" "''alice'' \<noteq> []" "''bob'' \<noteq> []" "''demo'' \<noteq> []"
    by simp_all
  have fresh: "''alice'' \<notin> set (map a_username (users_t init_db15))"
    "''bob'' \<notin> set (map a_username (users_t init_db15))"
    by (simp_all add: init_db15_def)
  from same_password_same_credential [OF names fresh, of sha256 30 "''Female''" 40 "''Male''"] names(1)
  show "''alice'' \<noteq> ''bob''
     \<and> stored_password
          (snd (page_register sha256 (snd (page_register sha256 init_db15 ''alice'' ''demo'' 30 ''Female''))
             ''bob'' ''demo'' 40 ''Male'')) ''alice'' = Some (sha256 ''demo'')
     \<and> stored_password
          (snd (page_register sha256 (snd (page_register sha256 init_db15 ''alice'' ''demo'' 30 ''Female''))
             ''bob'' ''demo'' 40 ''Male'')) ''bob'' = Some (sha256 ''demo'')"
    by blast
qed

text \<open>
  The claim as stated fails: there is no digest function for which the credentials stored for
  alice and bob, registered with the same password, differ.
\<close>

theorem same_password_differs_counterexample:
  "\<not> (\<exists>sha256.
        stored_password
          (snd (page_register sha256 (snd (page_register sha256 init_db15 ''alice'' ''demo'' 30 ''Female''))
             ''bob'' ''demo'' 40 ''Male'')) ''alice''
        \<noteq> stored_password
          (snd (page_register sha256 (snd (page_register sha256 init_db15 ''alice'' ''demo'' 30 ''Female''))
             ''bob'' ''demo'' 40 ''Male'')) ''bob'')"
  by (simp add: page_register_def hash_pw_def stored_password_def init_db15_def)

section \<open>Opening the Insights tab twice\<close>

text \<open>
  Claim C9. Rendering the Insights tab leaves the store as it was, so rendering it again
  with no dose logged in between shows the same thing: the same heat-map counts, the same
  fitted pipeline (the fit being a function of the table), and the same answer to every risk
  query. What is shown is computed from the user's doses alone.
\<close>

theorem insights_twice:
  "fst (page_dashboard_insights fit d uid) = d
   \<and> snd (page_dashboard_insights fit (fst (page_dashboard_insights fit d uid)) uid) =
       snd (page_dashboard_insights fit d uid)
   \<and> query_risk (snd (page_dashboard_insights fit (fst (page_dashboard_insights fit d uid)) uid)) h day =
       query_risk (snd (page_dashboard_insights fit d uid)) h day
   \<and> (case snd (page_dashboard_insights fit d uid) of
         NoLogs \<Rightarrow> select_doses d uid = []
       | Insights hm model days \<Rightarrow>
           hm = heat (select_doses d uid) \<and> model = fit_pipe15 fit (select_doses d uid))"
proof -
  have unchanged: "fst (page_dashboard_insights fit d uid) = d"
    by (simp add: page_dashboard_insights_def)
  have shown: "case snd (page_dashboard_insights fit d uid) of
         NoLogs \<Rightarrow> select_doses d uid = []
       | Insights hm model days \<Rightarrow>
           hm = heat (select_doses d uid) \<and> model = fit_pipe15 fit (select_doses d uid)"
    by (simp add: page_dashboard_insights_def get_insights_def Let_def)
  from unchanged shown show ?thesis
    by simp
qed

end
